theory Spec2Isabelle
  imports Main
begin

section \<open>The API client facade of \<^verbatim>\<open>frontend/src/api/index.js\<close>\<close>

text \<open>
  The module is fifteen lines: it creates one axios instance, installs one response
  interceptor on it, and exports two helpers and the instance itself.

  \<^verbatim>\<open>
  const api = axios.create({
    baseURL: import.meta?.env?.VITE_API_URL || 'http://localhost:8000',
    timeout: 30000
  })
  api.interceptors.response.use(
    (res) => res.data,
    (err) => Promise.reject(err)
  )
  export const getDashboardData = (userId, days) =>
    api.get(`/api/users/${userId}/dashboard`, { params: { days } })
  export const analyzeEmotion = (text, userId) =>
    api.post('/api/analysis/emotion', { text, user_id: userId })
  export default api
  \<close>

  The embedding has two layers. The JavaScript the module itself evaluates (optional
  chaining, \<open>||\<close>, the template literal, the object literals, the two interceptor
  callbacks) is translated expression by expression. The axios library is not part of
  the repository; of it, only the contract the module relies on is modelled: an instance
  holds default settings and an ordered list of response handler pairs, a request merges
  the per-call settings over the defaults, hands the merged request to the transport once,
  and pipes the settled result through the handler pairs in registration order. The
  transport is a parameter of every definition (\<open>adapter\<close>), so each theorem holds
  for whatever the network answers.
\<close>

subsection \<open>JavaScript values\<close>

text \<open>
  \<open>JNum\<close> stands for an integer-valued Number in the safe range (below \<open>2^53\<close> in
  magnitude), where the string conversion is the plain decimal numeral. Fractions,
  \<open>NaN\<close>, infinities and Symbols are outside the model. \<open>JObj\<close> is a plain object as
  its property list, each name listed once.
\<close>

datatype js_value =
    JUndefined
  | JNull
  | JBool bool
  | JNum int
  | JStr string
  | JObj "(string \<times> js_value) list"

text \<open>Truthiness, as \<open>||\<close> tests it.\<close>

fun truthy :: "js_value \<Rightarrow> bool" where
  "truthy JUndefined = False"
| "truthy JNull = False"
| "truthy (JBool b) = b"
| "truthy (JNum n) = (n \<noteq> 0)"
| "truthy (JStr s) = (s \<noteq> [])"
| "truthy (JObj kvs) = True"

text \<open>\<open>a || b\<close>: the left operand when it is truthy, the right one otherwise.\<close>

definition js_or :: "js_value \<Rightarrow> js_value \<Rightarrow> js_value" where
  "js_or a b = (if truthy a then a else b)"

text \<open>
  \<open>v?.k\<close>: \<open>undefined\<close> when \<open>v\<close> is \<open>undefined\<close> or \<open>null\<close>, the property otherwise.
  A property an object does not have reads as \<open>undefined\<close>; so do the names used here
  (\<open>env\<close>, \<open>VITE_API_URL\<close>) on a primitive.
\<close>

fun opt_chain :: "js_value \<Rightarrow> string \<Rightarrow> js_value" where
  "opt_chain (JObj kvs) k = (case map_of kvs k of Some v \<Rightarrow> v | None \<Rightarrow> JUndefined)"
| "opt_chain v k = JUndefined"

text \<open>The decimal numeral of a natural number.\<close>

function digits :: "nat \<Rightarrow> string" where
  "digits n =
     (if n < 10 then [''0123456789'' ! n]
      else digits (n div 10) @ [''0123456789'' ! (n mod 10)])"
  by pat_completeness auto
termination
  by (relation "measure id") auto

text \<open>The string conversion a template literal applies to \<open>${v}\<close>.\<close>

fun ToString :: "js_value \<Rightarrow> string" where
  "ToString JUndefined = ''undefined''"
| "ToString JNull = ''null''"
| "ToString (JBool b) = (if b then ''true'' else ''false'')"
| "ToString (JNum n) = (if n < 0 then ''-'' @ digits (nat (- n)) else digits (nat n))"
| "ToString (JStr s) = s"
| "ToString (JObj kvs) = ''[object Object]''"

subsection \<open>Requests, responses and settled promises\<close>

datatype http_method = GET | POST

record axios_defaults =
  baseURL :: js_value
  timeout :: nat

text \<open>
  The merged request the transport receives: the instance settings extended by what the
  call fixes. \<open>params\<close> and \<open>body\<close> are \<open>None\<close> when the call gives none.
\<close>

record request = axios_defaults +
  http_method :: http_method
  url :: string
  params :: "(string \<times> js_value) list option"
  body :: "js_value option"

text \<open>The per-call settings object; an absent key is \<open>None\<close>.\<close>

record request_config =
  cfg_baseURL :: "js_value option"
  cfg_timeout :: "nat option"
  cfg_params :: "(string \<times> js_value) list option"
  cfg_data :: "js_value option"

definition no_config :: request_config where
  "no_config = \<lparr>cfg_baseURL = None, cfg_timeout = None, cfg_params = None, cfg_data = None\<rparr>"

text \<open>The response object of a completed exchange: the body inside its wrapper.\<close>

record response =
  data :: js_value
  status :: nat
  statusText :: string
  headers :: "(string \<times> string) list"

record axios_error =
  code :: string
  message :: string
  error_response :: "response option"

text \<open>
  What can travel along a promise chain: JavaScript is untyped there, so a handler may
  receive a response, an error object, a plain value, or the \<open>TypeError\<close> a property
  read on \<open>undefined\<close> or \<open>null\<close> throws.
\<close>

datatype dyn =
    Response response
  | AxiosError axios_error
  | Plain js_value
  | TypeError

datatype settled = Fulfilled dyn | Rejected dyn

type_synonym handler = "dyn \<Rightarrow> settled"

type_synonym adapter = "request \<Rightarrow> settled"

text \<open>\<open>p.then(onFulfilled, onRejected)\<close> on a settled promise.\<close>

fun promise_then :: "settled \<Rightarrow> handler \<times> handler \<Rightarrow> settled" where
  "promise_then (Fulfilled v) (onFulfilled, onRejected) = onFulfilled v"
| "promise_then (Rejected e) (onFulfilled, onRejected) = onRejected e"

subsection \<open>The axios instance\<close>

record axios_instance =
  defaults :: axios_defaults
  response_handlers :: "(handler \<times> handler) list"

definition axios_create :: "axios_defaults \<Rightarrow> axios_instance" where
  "axios_create cfg = \<lparr>defaults = cfg, response_handlers = []\<rparr>"

text \<open>\<open>inst.interceptors.response.use(f, r)\<close> registers the pair after the earlier ones.\<close>

definition interceptors_response_use ::
  "handler \<Rightarrow> handler \<Rightarrow> axios_instance \<Rightarrow> axios_instance" where
  "interceptors_response_use f r inst =
     inst\<lparr>response_handlers := response_handlers inst @ [(f, r)]\<rparr>"

text \<open>A call's settings win over the instance defaults; the rest is taken from the call.\<close>

definition merge_config ::
  "axios_defaults \<Rightarrow> http_method \<Rightarrow> string \<Rightarrow> request_config \<Rightarrow> request" where
  "merge_config d m u cfg =
     \<lparr>baseURL = (case cfg_baseURL cfg of Some b \<Rightarrow> b | None \<Rightarrow> baseURL d),
      timeout = (case cfg_timeout cfg of Some t \<Rightarrow> t | None \<Rightarrow> timeout d),
      http_method = m, url = u, params = cfg_params cfg, body = cfg_data cfg\<rparr>"

text \<open>
  One exchange: the requests handed to the transport, and how the caller's promise
  settles.
\<close>

record exchange =
  issued :: "request list"
  outcome :: settled

definition axios_request ::
  "adapter \<Rightarrow> axios_instance \<Rightarrow> http_method \<Rightarrow> string \<Rightarrow> request_config \<Rightarrow> exchange" where
  "axios_request adapter inst m u cfg =
     (let req = merge_config (defaults inst) m u cfg
      in \<lparr>issued = [req], outcome = foldl promise_then (adapter req) (response_handlers inst)\<rparr>)"

text \<open>\<open>inst.get(url, config)\<close> and \<open>inst.post(url, data)\<close>.\<close>

definition axios_get ::
  "adapter \<Rightarrow> axios_instance \<Rightarrow> string \<Rightarrow> request_config \<Rightarrow> exchange" where
  "axios_get adapter inst u cfg = axios_request adapter inst GET u cfg"

definition axios_post ::
  "adapter \<Rightarrow> axios_instance \<Rightarrow> string \<Rightarrow> js_value \<Rightarrow> exchange" where
  "axios_post adapter inst u d =
     axios_request adapter inst POST u (no_config\<lparr>cfg_data := Some d\<rparr>)"

subsection \<open>The module\<close>

text \<open>\<open>(res) => res.data\<close>, on whatever the chain delivers.\<close>

fun on_fulfilled :: handler where
  "on_fulfilled (Response res) = Fulfilled (Plain (data res))"
| "on_fulfilled (Plain JUndefined) = Rejected TypeError"
| "on_fulfilled (Plain JNull) = Rejected TypeError"
| "on_fulfilled (Plain v) = Fulfilled (Plain (opt_chain v ''data''))"
| "on_fulfilled (AxiosError e) = Fulfilled (Plain JUndefined)"
| "on_fulfilled TypeError = Fulfilled (Plain JUndefined)"

text \<open>\<open>(err) => Promise.reject(err)\<close>.\<close>

definition on_rejected :: handler where
  "on_rejected err = Rejected err"

text \<open>
  The module's state is the one object bound to \<open>api\<close>. Loading the module evaluates
  the two top-level statements; \<open>import_meta\<close> is the value of \<open>import.meta\<close>.
\<close>

record module_state =
  api :: axios_instance

definition default_baseURL :: js_value where
  "default_baseURL = JStr ''http://localhost:8000''"

text \<open>\<open>import.meta?.env?.VITE_API_URL\<close>.\<close>

definition VITE_API_URL :: "js_value \<Rightarrow> js_value" where
  "VITE_API_URL import_meta = opt_chain (opt_chain import_meta ''env'') ''VITE_API_URL''"

definition module_load :: "js_value \<Rightarrow> module_state" where
  "module_load import_meta =
     \<lparr>api = interceptors_response_use on_fulfilled on_rejected
              (axios_create
                 \<lparr>baseURL = js_or (VITE_API_URL import_meta) default_baseURL,
                  timeout = 30000\<rparr>)\<rparr>"

definition getDashboardData ::
  "adapter \<Rightarrow> module_state \<Rightarrow> js_value \<Rightarrow> js_value \<Rightarrow> exchange" where
  "getDashboardData adapter s userId days =
     axios_get adapter (api s) (''/api/users/'' @ ToString userId @ ''/dashboard'')
       (no_config\<lparr>cfg_params := Some [(''days'', days)]\<rparr>)"

definition analyzeEmotion ::
  "adapter \<Rightarrow> module_state \<Rightarrow> js_value \<Rightarrow> js_value \<Rightarrow> exchange" where
  "analyzeEmotion adapter s text userId =
     axios_post adapter (api s) ''/api/analysis/emotion''
       (JObj [(''text'', text), (''user_id'', userId)])"

text \<open>\<open>export default api\<close>.\<close>

definition default_export :: "module_state \<Rightarrow> axios_instance" where
  "default_export s = api s"

subsection \<open>A caller's session with the module\<close>

text \<open>
  What importing code can do with the three exports: call a helper, or use the default
  export, which is the instance itself. Of the latter, the session has the registration
  of a further response interceptor (\<open>api.interceptors.response.use(f, r)\<close>) and the
  assignments \<open>api.defaults.timeout = t\<close> and \<open>api.defaults.baseURL = b\<close>. The instance
  the default export hands out is the object bound to \<open>api\<close>, so these change the
  module's state.
\<close>

datatype caller_op =
    GetDashboardData js_value js_value
  | AnalyzeEmotion js_value js_value
  | UseResponseInterceptor handler handler
  | SetDefaultTimeout nat
  | SetDefaultBaseURL js_value

fun is_helper_call :: "caller_op \<Rightarrow> bool" where
  "is_helper_call (GetDashboardData userId days) = True"
| "is_helper_call (AnalyzeEmotion text userId) = True"
| "is_helper_call other = False"

fun step :: "adapter \<Rightarrow> module_state \<Rightarrow> caller_op \<Rightarrow> module_state \<times> exchange list" where
  "step adapter s (GetDashboardData userId days) = (s, [getDashboardData adapter s userId days])"
| "step adapter s (AnalyzeEmotion text userId) = (s, [analyzeEmotion adapter s text userId])"
| "step adapter s (UseResponseInterceptor f r) =
     (s\<lparr>api := interceptors_response_use f r (default_export s)\<rparr>, [])"
| "step adapter s (SetDefaultTimeout t) =
     (s\<lparr>api := (default_export s)\<lparr>defaults := (defaults (default_export s))\<lparr>timeout := t\<rparr>\<rparr>\<rparr>, [])"
| "step adapter s (SetDefaultBaseURL b) =
     (s\<lparr>api := (default_export s)\<lparr>defaults := (defaults (default_export s))\<lparr>baseURL := b\<rparr>\<rparr>\<rparr>, [])"

fun run :: "adapter \<Rightarrow> module_state \<Rightarrow> caller_op list \<Rightarrow> module_state \<times> exchange list" where
  "run adapter s [] = (s, [])"
| "run adapter s (c # cs) =
     (case step adapter s c of (s', es) \<Rightarrow>
        (case run adapter s' cs of (s'', es') \<Rightarrow> (s'', es @ es')))"

text \<open>The requests of a list of exchanges, in the order they were issued.\<close>

definition requests_of :: "exchange list \<Rightarrow> request list" where
  "requests_of es = concat (map issued es)"

text \<open>Concrete transports for the examples: one that never connects, one that answers.\<close>

definition offline :: adapter where
  "offline req =
     Rejected (AxiosError \<lparr>code = ''ERR_NETWORK'', message = ''Network Error'',
                            error_response = None\<rparr>)"

definition mood_response :: response where
  "mood_response =
     \<lparr>data = JObj [(''mood'', JStr ''calm''), (''score'', JNum 7)], status = 200,
      statusText = ''OK'', headers = [(''content-type'', ''application/json'')]\<rparr>"

definition online :: adapter where
  "online req = Fulfilled (Response mood_response)"

text \<open>A further interceptor a caller might register: it replaces every body.\<close>

definition mask_body :: handler where
  "mask_body v = Fulfilled (Plain (JStr ''masked''))"

text \<open>How often a character occurs in a string.\<close>

definition count_char :: "char \<Rightarrow> string \<Rightarrow> nat" where
  "count_char c s = length (filter (\<lambda>x. x = c) s)"

section \<open>Properties\<close>

subsection \<open>What a request through an instance issues and delivers\<close>

lemma issued_axios_request:
  "issued (axios_request adapter inst m u cfg) = [merge_config (defaults inst) m u cfg]"
  by (simp add: axios_request_def Let_def)

lemma outcome_axios_request:
  "outcome (axios_request adapter inst m u cfg) =
     foldl promise_then (adapter (merge_config (defaults inst) m u cfg)) (response_handlers inst)"
  by (simp add: axios_request_def Let_def)

lemma handlers_module_load:
  "response_handlers (api (module_load im)) = [(on_fulfilled, on_rejected)]"
  by (simp add: module_load_def interceptors_response_use_def axios_create_def)

lemma defaults_module_load:
  "defaults (api (module_load im)) =
     \<lparr>baseURL = js_or (VITE_API_URL im) default_baseURL, timeout = 30000\<rparr>"
  by (simp add: module_load_def interceptors_response_use_def axios_create_def)

lemma issued_getDashboardData:
  "issued (getDashboardData adapter s userId days) =
     [merge_config (defaults (api s)) GET (''/api/users/'' @ ToString userId @ ''/dashboard'')
        (no_config\<lparr>cfg_params := Some [(''days'', days)]\<rparr>)]"
  by (simp add: getDashboardData_def axios_get_def issued_axios_request)

lemma issued_analyzeEmotion:
  "issued (analyzeEmotion adapter s text userId) =
     [merge_config (defaults (api s)) POST ''/api/analysis/emotion''
        (no_config\<lparr>cfg_data := Some (JObj [(''text'', text), (''user_id'', userId)])\<rparr>)]"
  by (simp add: analyzeEmotion_def axios_post_def issued_axios_request)

lemma outcome_getDashboardData:
  "outcome (getDashboardData adapter s userId days) =
     foldl promise_then (adapter (hd (issued (getDashboardData adapter s userId days))))
       (response_handlers (api s))"
  by (simp add: getDashboardData_def axios_get_def issued_axios_request outcome_axios_request)

lemma outcome_analyzeEmotion:
  "outcome (analyzeEmotion adapter s text userId) =
     foldl promise_then (adapter (hd (issued (analyzeEmotion adapter s text userId))))
       (response_handlers (api s))"
  by (simp add: analyzeEmotion_def axios_post_def issued_axios_request outcome_axios_request)

lemma outcome_request_hd:
  "outcome (axios_request adapter inst m u cfg) =
     foldl promise_then (adapter (hd (issued (axios_request adapter inst m u cfg))))
       (response_handlers inst)"
  by (simp add: issued_axios_request outcome_axios_request)

lemma baseURL_merge_helper:
  "cfg_baseURL cfg = None \<Longrightarrow> baseURL (merge_config d m u cfg) = baseURL d"
  by (simp add: merge_config_def)

lemma timeout_merge_helper:
  "cfg_timeout cfg = None \<Longrightarrow> timeout (merge_config d m u cfg) = timeout d"
  by (simp add: merge_config_def)

lemma baseURL_issued_getDashboardData:
  "map baseURL (issued (getDashboardData adapter s userId days)) = [baseURL (defaults (api s))]"
  by (simp add: issued_getDashboardData baseURL_merge_helper no_config_def)

lemma baseURL_issued_analyzeEmotion:
  "map baseURL (issued (analyzeEmotion adapter s t userId)) = [baseURL (defaults (api s))]"
  by (simp add: issued_analyzeEmotion baseURL_merge_helper no_config_def)

lemma timeout_issued_getDashboardData:
  "map timeout (issued (getDashboardData adapter s userId days)) = [timeout (defaults (api s))]"
  by (simp add: issued_getDashboardData timeout_merge_helper no_config_def)

lemma timeout_issued_analyzeEmotion:
  "map timeout (issued (analyzeEmotion adapter s t userId)) = [timeout (defaults (api s))]"
  by (simp add: issued_analyzeEmotion timeout_merge_helper no_config_def)

lemma baseURL_module_load:
  "baseURL (defaults (api (module_load im))) = js_or (VITE_API_URL im) default_baseURL"
  by (simp add: defaults_module_load)

subsection \<open>Helper calls leave the module state alone\<close>

lemma step_helper_call:
  "is_helper_call c \<Longrightarrow> fst (step adapter s c) = s"
  by (cases c) simp_all

lemma step_helper_timeout:
  "is_helper_call c \<Longrightarrow>
     map timeout (requests_of (snd (step adapter s c))) = [timeout (defaults (api s))]"
  by (cases c)
    (simp_all add: requests_of_def timeout_issued_getDashboardData timeout_issued_analyzeEmotion)

lemma step_helper_baseURL:
  "is_helper_call c \<Longrightarrow>
     map baseURL (requests_of (snd (step adapter s c))) = [baseURL (defaults (api s))]"
  by (cases c)
    (simp_all add: requests_of_def baseURL_issued_getDashboardData baseURL_issued_analyzeEmotion)

lemma requests_of_append: "requests_of (es @ es') = requests_of es @ requests_of es'"
  by (simp add: requests_of_def)

lemma run_Cons:
  "run adapter s (c # cs) =
     (fst (run adapter (fst (step adapter s c)) cs),
      snd (step adapter s c) @ snd (run adapter (fst (step adapter s c)) cs))"
  by (simp split: prod.splits)

lemma run_helper_calls:
  "list_all is_helper_call cs \<Longrightarrow>
     fst (run adapter s cs) = s
     \<and> map timeout (requests_of (snd (run adapter s cs))) =
         replicate (length cs) (timeout (defaults (api s)))
     \<and> map baseURL (requests_of (snd (run adapter s cs))) =
         replicate (length cs) (baseURL (defaults (api s)))"
proof (induction cs)
  case Nil
  show ?case by (simp add: requests_of_def)
next
  case (Cons c cs)
  then have c: "is_helper_call c" and cs: "list_all is_helper_call cs"
    by simp_all
  note ih = Cons.IH [OF cs]
  show ?case
    unfolding run_Cons
    by (simp add: step_helper_call [OF c] step_helper_timeout [OF c]
        step_helper_baseURL [OF c] requests_of_append ih)
qed

lemma outcome_after_use:
  "response_handlers (api s') = response_handlers (api s) @ [(f, r)] \<Longrightarrow>
   defaults (api s') = defaults (api s) \<Longrightarrow>
     outcome (getDashboardData adapter s' userId days) =
       promise_then (outcome (getDashboardData adapter s userId days)) (f, r)
     \<and> outcome (analyzeEmotion adapter s' t userId) =
       promise_then (outcome (analyzeEmotion adapter s t userId)) (f, r)"
  by (simp add: outcome_getDashboardData outcome_analyzeEmotion issued_getDashboardData
      issued_analyzeEmotion)

subsection \<open>Successful exchanges\<close>

text \<open>
  Claim C1. For every request made through the client the module creates (by
  \<open>getDashboardData\<close>, by \<open>analyzeEmotion\<close>, or any other request through that
  client) whose transport exchange succeeds with a response, the caller's promise is
  fulfilled with exactly the body of that response: the response interceptor has
  stripped the status and header wrapper.
\<close>

theorem response_body_delivered:
  assumes "e = getDashboardData adapter (module_load im) userId days
         \<or> e = analyzeEmotion adapter (module_load im) t userId
         \<or> e = axios_request adapter (api (module_load im)) m u cfg"
    and "issued e = [req]"
    and "adapter req = Fulfilled (Response res)"
  shows "outcome e = Fulfilled (Plain (data res))"
proof -
  have "outcome e = foldl promise_then (adapter (hd (issued e))) [(on_fulfilled, on_rejected)]"
    using assms(1)
    by (auto simp: outcome_getDashboardData outcome_analyzeEmotion outcome_request_hd
        handlers_module_load)
  then show ?thesis
    using assms(2,3) by simp
qed

theorem response_body_delivered_witness:
  "outcome (getDashboardData online (module_load JUndefined) (JNum 42) (JNum 7)) =
     Fulfilled (Plain (JObj [(''mood'', JStr ''calm''), (''score'', JNum 7)]))
   \<and> outcome (analyzeEmotion online (module_load JUndefined) (JStr ''I feel great'') (JNum 42)) =
     Fulfilled (Plain (JObj [(''mood'', JStr ''calm''), (''score'', JNum 7)]))"
proof -
  have a: "online r = Fulfilled (Response mood_response)" for r
    by (simp add: online_def)
  have d: "data mood_response = JObj [(''mood'', JStr ''calm''), (''score'', JNum 7)]"
    by (simp add: mood_response_def)
  show ?thesis
    using response_body_delivered [where adapter = online and im = JUndefined
        and userId = "JNum 42" and days = "JNum 7" and res = mood_response,
        OF disjI1 [OF refl] issued_getDashboardData a]
      response_body_delivered [where adapter = online and im = JUndefined
        and t = "JStr ''I feel great''" and userId = "JNum 42" and res = mood_response,
        OF disjI2 [OF disjI1 [OF refl]] issued_analyzeEmotion a]
    by (simp add: d)
qed


subsection \<open>Failed exchanges\<close>

text \<open>
  Claim C2. For every request made through the client the module creates (by either
  helper, or any other request through that client) that the transport rejects, whatever
  the reason, the caller's promise is rejected with the very value the transport
  rejected with: nothing is swallowed, transformed or recovered.
\<close>

theorem failure_propagated_unchanged:
  assumes "e = getDashboardData adapter (module_load im) userId days
         \<or> e = analyzeEmotion adapter (module_load im) t userId
         \<or> e = axios_request adapter (api (module_load im)) m u cfg"
    and "issued e = [req]"
    and "adapter req = Rejected err"
  shows "outcome e = Rejected err"
proof -
  have "outcome e = foldl promise_then (adapter (hd (issued e))) [(on_fulfilled, on_rejected)]"
    using assms(1)
    by (auto simp: outcome_getDashboardData outcome_analyzeEmotion outcome_request_hd
        handlers_module_load)
  then show ?thesis
    using assms(2,3) by (simp add: on_rejected_def)
qed

theorem failure_propagated_unchanged_witness:
  "outcome (getDashboardData offline (module_load JUndefined) (JNum 42) (JNum 7)) =
     Rejected (AxiosError \<lparr>code = ''ERR_NETWORK'', message = ''Network Error'',
                            error_response = None\<rparr>)
   \<and> outcome (analyzeEmotion offline (module_load JUndefined) (JStr ''I feel great'') (JNum 42)) =
     Rejected (AxiosError \<lparr>code = ''ERR_NETWORK'', message = ''Network Error'',
                            error_response = None\<rparr>)"
proof -
  have a: "offline r = Rejected (AxiosError \<lparr>code = ''ERR_NETWORK'',
      message = ''Network Error'', error_response = None\<rparr>)" for r
    by (simp add: offline_def)
  show ?thesis
    using failure_propagated_unchanged [where adapter = offline and im = JUndefined
        and userId = "JNum 42" and days = "JNum 7",
        OF disjI1 [OF refl] issued_getDashboardData a]
      failure_propagated_unchanged [where adapter = offline and im = JUndefined
        and t = "JStr ''I feel great''" and userId = "JNum 42",
        OF disjI2 [OF disjI1 [OF refl]] issued_analyzeEmotion a]
    by simp
qed

subsection \<open>The two request shapes\<close>

text \<open>
  Claim C3. For every \<open>userId\<close> and \<open>days\<close>, \<open>getDashboardData\<close> issues exactly one
  request: a GET to the path \<open>/api/users/{userId}/dashboard\<close>, with \<open>days\<close> as the
  query parameter named \<open>days\<close> and no request body. For \<open>(42, 7)\<close> the path is
  \<open>/api/users/42/dashboard\<close> and the parameter is \<open>days = 7\<close>.
\<close>

theorem getDashboardData_request:
  "map (\<lambda>r. (http_method r, url r, params r, body r)) (issued (getDashboardData adapter s userId days)) =
     [(GET, ''/api/users/'' @ ToString userId @ ''/dashboard'', Some [(''days'', days)], None)]
   \<and> map (\<lambda>r. (http_method r, url r, params r, body r))
         (issued (getDashboardData adapter s (JNum 42) (JNum 7))) =
     [(GET, ''/api/users/42/dashboard'', Some [(''days'', JNum 7)], None)]"
  by (simp add: issued_getDashboardData merge_config_def no_config_def)

text \<open>
  Claim C4. For every \<open>text\<close> and \<open>userId\<close>, \<open>analyzeEmotion\<close> issues exactly one
  request: a POST to the fixed path \<open>/api/analysis/emotion\<close> whose body is the object
  with \<open>text\<close> under the key \<open>text\<close> and \<open>userId\<close> under the key \<open>user_id\<close>, both
  as they were given.
\<close>

theorem analyzeEmotion_request:
  "map (\<lambda>r. (http_method r, url r, params r, body r)) (issued (analyzeEmotion adapter s t userId)) =
     [(POST, ''/api/analysis/emotion'', None, Some (JObj [(''text'', t), (''user_id'', userId)]))]
   \<and> map (\<lambda>r. (http_method r, url r, params r, body r))
         (issued (analyzeEmotion adapter s (JStr ''I feel great'') (JNum 42))) =
     [(POST, ''/api/analysis/emotion'', None,
       Some (JObj [(''text'', JStr ''I feel great''), (''user_id'', JNum 42)]))]"
  by (simp add: issued_analyzeEmotion merge_config_def no_config_def)

text \<open>
  Claim C8. The path of \<open>getDashboardData\<close> is the plain concatenation of
  \<open>/api/users/\<close>, the string conversion of \<open>userId\<close> and \<open>/dashboard\<close>: nothing is
  encoded or checked. A string \<open>userId\<close> appears in the path character for character,
  so every \<open>/\<close> in it adds a path separator to the four of the template, and \<open>?\<close> and
  \<open>#\<close> reach the URL as they are.
\<close>

theorem userId_interpolated_unescaped:
  "map url (issued (getDashboardData adapter s userId days)) =
     [''/api/users/'' @ ToString userId @ ''/dashboard'']
   \<and> map url (issued (getDashboardData adapter s (JStr u) days)) =
     [''/api/users/'' @ u @ ''/dashboard'']
   \<and> map (count_char CHR ''/'') (map url (issued (getDashboardData adapter s userId days))) =
     [4 + count_char CHR ''/'' (ToString userId)]
   \<and> map url (issued (getDashboardData adapter s (JStr ''7/../8?x=1#top'') days)) =
     [''/api/users/7/../8?x=1#top/dashboard'']"
  by (simp add: issued_getDashboardData merge_config_def count_char_def)

subsection \<open>The base URL\<close>

text \<open>
  Claim C5. When the environment gives no base-URL override (\<open>VITE_API_URL\<close> reads as
  \<open>undefined\<close>), the client's base URL is \<open>http://localhost:8000\<close>, and the one
  request either helper issues carries that base URL.
\<close>

theorem default_base_url_when_absent:
  assumes "VITE_API_URL im = JUndefined"
  shows "baseURL (defaults (api (module_load im))) = JStr ''http://localhost:8000''
       \<and> map baseURL (issued (getDashboardData adapter (module_load im) userId days)) =
           [JStr ''http://localhost:8000'']
       \<and> map baseURL (issued (analyzeEmotion adapter (module_load im) t userId)) =
           [JStr ''http://localhost:8000'']"
  using assms
  by (simp add: baseURL_issued_getDashboardData baseURL_issued_analyzeEmotion
      baseURL_module_load js_or_def default_baseURL_def)

theorem default_base_url_when_absent_witness:
  "VITE_API_URL (JObj [(''env'', JObj [(''MODE'', JStr ''development'')])]) = JUndefined
   \<and> baseURL (defaults (api (module_load (JObj [(''env'', JObj [(''MODE'', JStr ''development'')])])))) =
       JStr ''http://localhost:8000''
   \<and> map baseURL (issued (getDashboardData offline
         (module_load (JObj [(''env'', JObj [(''MODE'', JStr ''development'')])])) (JNum 42) (JNum 7))) =
       [JStr ''http://localhost:8000'']"
proof -
  have h: "VITE_API_URL (JObj [(''env'', JObj [(''MODE'', JStr ''development'')])]) = JUndefined"
    by (simp add: VITE_API_URL_def)
  show ?thesis
    using h default_base_url_when_absent [OF h, of offline "JNum 42" "JNum 7"]
    by simp
qed

text \<open>
  Claim C9. The fallback is taken for every falsy override, not only an absent one: with
  the override set to the empty string, or with no \<open>env\<close> object on \<open>import.meta\<close>,
  the base URL is still \<open>http://localhost:8000\<close>.
\<close>

theorem fallback_on_falsy_override:
  assumes "\<not> truthy (VITE_API_URL im)"
  shows "baseURL (defaults (api (module_load im))) = JStr ''http://localhost:8000''"
  using assms by (simp add: baseURL_module_load js_or_def default_baseURL_def)

theorem fallback_on_falsy_override_witness:
  "\<not> truthy (VITE_API_URL (JObj [(''env'', JObj [(''VITE_API_URL'', JStr '''')])]))
   \<and> baseURL (defaults (api (module_load (JObj [(''env'', JObj [(''VITE_API_URL'', JStr '''')])])))) =
       JStr ''http://localhost:8000''
   \<and> \<not> truthy (VITE_API_URL (JObj []))
   \<and> baseURL (defaults (api (module_load (JObj [])))) = JStr ''http://localhost:8000''"
proof -
  have h1: "\<not> truthy (VITE_API_URL (JObj [(''env'', JObj [(''VITE_API_URL'', JStr '''')])]))"
    by (simp add: VITE_API_URL_def)
  have h2: "\<not> truthy (VITE_API_URL (JObj []))"
    by (simp add: VITE_API_URL_def)
  show ?thesis
    using h1 h2 fallback_on_falsy_override [OF h1] fallback_on_falsy_override [OF h2]
    by simp
qed


subsection \<open>The client configuration over a session\<close>

text \<open>
  Claim C6, as stated, says the configuration is immutable after load and that every
  helper request at any time carries the timeout 30000. The instance is the default
  export, and a caller who assigns \<open>api.defaults.timeout = 5\<close> before calling
  \<open>getDashboardData(42, 7)\<close> gets a request with timeout 5.
\<close>

theorem timeout_not_fixed_counterexample:
  "map timeout (requests_of (snd (run offline (module_load JUndefined)
       [SetDefaultTimeout 5, GetDashboardData (JNum 42) (JNum 7)]))) = [5]
   \<and> timeout (defaults (api (fst (run offline (module_load JUndefined)
       [SetDefaultTimeout 5, GetDashboardData (JNum 42) (JNum 7)])))) = 5"
  by (simp add: requests_of_def timeout_issued_getDashboardData default_export_def)

text \<open>
  Claim C6, amended. The configuration is built once, when the module loads, with the
  timeout 30000; neither helper changes it or overrides it for its call. So over any
  sequence of helper calls the module state stays what loading made it, each call issues
  one request, and every request carries the timeout 30000 and the base URL chosen at
  load.
\<close>

theorem helpers_keep_configuration:
  assumes "list_all is_helper_call cs"
  shows "timeout (defaults (api (module_load im))) = 30000
       \<and> fst (run adapter (module_load im) cs) = module_load im
       \<and> map timeout (requests_of (snd (run adapter (module_load im) cs))) =
           replicate (length cs) 30000
       \<and> map baseURL (requests_of (snd (run adapter (module_load im) cs))) =
           replicate (length cs) (baseURL (defaults (api (module_load im))))"
  using run_helper_calls [OF assms, of adapter "module_load im"]
  by (simp add: defaults_module_load)

theorem helpers_keep_configuration_witness:
  "list_all is_helper_call [GetDashboardData (JNum 42) (JNum 7),
       AnalyzeEmotion (JStr ''I feel great'') (JNum 42)]
   \<and> map timeout (requests_of (snd (run online (module_load JUndefined)
       [GetDashboardData (JNum 42) (JNum 7),
        AnalyzeEmotion (JStr ''I feel great'') (JNum 42)]))) = [30000, 30000]"
proof -
  have h: "list_all is_helper_call [GetDashboardData (JNum 42) (JNum 7),
       AnalyzeEmotion (JStr ''I feel great'') (JNum 42)]"
    by simp
  show ?thesis
    using h helpers_keep_configuration [OF h, of JUndefined online]
    by (simp add: numeral_2_eq_2)
qed

subsection \<open>The default export is the helpers' client\<close>

text \<open>
  Claim C10. Both helpers send through the one instance bound to \<open>api\<close>, which is also
  the default export. So what a caller attaches to the default export applies to the
  helper requests that follow: after a further response interceptor is registered, either
  helper's result is its former result passed through that interceptor; after a default
  timeout or base URL is assigned, the helper requests carry the assigned value. Helper
  calls in between do not undo it.
\<close>

theorem shared_client_is_default_export:
  assumes "list_all is_helper_call cs"
  shows "default_export s = api s
       \<and> outcome (getDashboardData adapter
             (fst (run adapter s (UseResponseInterceptor f r # cs))) userId days) =
           promise_then (outcome (getDashboardData adapter s userId days)) (f, r)
       \<and> outcome (analyzeEmotion adapter
             (fst (run adapter s (UseResponseInterceptor f r # cs))) t userId) =
           promise_then (outcome (analyzeEmotion adapter s t userId)) (f, r)
       \<and> map timeout (requests_of (snd (run adapter s (SetDefaultTimeout n # cs)))) =
           replicate (length cs) n
       \<and> map baseURL (requests_of (snd (run adapter s (SetDefaultBaseURL b # cs)))) =
           replicate (length cs) b"
proof -
  let ?s1 = "fst (step adapter s (UseResponseInterceptor f r))"
  have s1: "fst (run adapter s (UseResponseInterceptor f r # cs)) = ?s1"
    unfolding run_Cons using run_helper_calls [OF assms, of adapter ?s1] by simp
  have h: "response_handlers (api ?s1) = response_handlers (api s) @ [(f, r)]"
    and d: "defaults (api ?s1) = defaults (api s)"
    by (simp_all add: default_export_def interceptors_response_use_def)
  have t: "map timeout (requests_of (snd (run adapter s (SetDefaultTimeout n # cs)))) =
           replicate (length cs) n"
    unfolding run_Cons
    using run_helper_calls [OF assms, of adapter "fst (step adapter s (SetDefaultTimeout n))"]
    by (simp add: requests_of_def)
  have b: "map baseURL (requests_of (snd (run adapter s (SetDefaultBaseURL b # cs)))) =
           replicate (length cs) b"
    unfolding run_Cons
    using run_helper_calls [OF assms, of adapter "fst (step adapter s (SetDefaultBaseURL b))"]
    by (simp add: requests_of_def)
  have o: "outcome (getDashboardData adapter
             (fst (run adapter s (UseResponseInterceptor f r # cs))) userId days) =
           promise_then (outcome (getDashboardData adapter s userId days)) (f, r)
       \<and> outcome (analyzeEmotion adapter
             (fst (run adapter s (UseResponseInterceptor f r # cs))) t userId) =
           promise_then (outcome (analyzeEmotion adapter s t userId)) (f, r)"
    unfolding s1 by (rule outcome_after_use [OF h d])
  have e: "default_export s = api s"
    by (simp add: default_export_def)
  from e o t b show ?thesis
    by blast
qed

theorem shared_client_is_default_export_witness:
  "list_all is_helper_call [AnalyzeEmotion (JStr ''I feel great'') (JNum 42)]
   \<and> outcome (getDashboardData online
         (fst (run online (module_load JUndefined)
            [UseResponseInterceptor mask_body on_rejected,
             AnalyzeEmotion (JStr ''I feel great'') (JNum 42)])) (JNum 42) (JNum 7)) =
       Fulfilled (Plain (JStr ''masked''))
   \<and> map timeout (requests_of (snd (run online (module_load JUndefined)
         [SetDefaultTimeout 5, AnalyzeEmotion (JStr ''I feel great'') (JNum 42)]))) = [5]"
proof -
  have h: "list_all is_helper_call [AnalyzeEmotion (JStr ''I feel great'') (JNum 42)]"
    by simp
  have o: "outcome (getDashboardData online (module_load JUndefined) (JNum 42) (JNum 7)) =
      Fulfilled (Plain (data mood_response))"
    by (simp add: outcome_getDashboardData handlers_module_load online_def)
  show ?thesis
    using h shared_client_is_default_export [OF h, of "module_load JUndefined" online
        mask_body on_rejected "JNum 42" "JNum 7" "JStr ''x''" 5 JNull]
    by (simp del: run.simps step.simps add: o mask_body_def)
qed

end
